theory Spec2Isabelle
  imports
    Complex_Main
    "HOL-Library.Char_ord"
    "HOL-Library.List_Lexorder"
    "HOL-Library.Product_Lexorder"
begin

section \<open>Department portal backend: the two server variants\<close>

text \<open>
  The repository holds the same Express application twice: \<^verbatim>\<open>server.js\<close> talks to
  PostgreSQL (Supabase) through \<^verbatim>\<open>pg\<close>, the second file talks to MySQL through
  \<^verbatim>\<open>mysql2\<close>. Both expose the same eight routes over one table,
  \<^verbatim>\<open>class_semester_info\<close>. Where the two files differ, the definitions below branch on
  the variant.
\<close>

datatype variant = Supabase | MySQL

subsection \<open>JavaScript strings and numbers\<close>

text \<open>
  Strings are lists of 8-bit characters. \<^verbatim>\<open>String.prototype.trim\<close> and the regular
  expression class \<^verbatim>\<open>\s\<close> share one set of white space; the members of that set
  below code point 256 are TAB, LF, VT, FF, CR, SPACE and NBSP.
\<close>

definition is_space :: "char \<Rightarrow> bool" where
  "is_space c \<longleftrightarrow> of_char c \<in> {9, 10, 11, 12, 13, 32, 160 :: nat}"

definition trim :: "string \<Rightarrow> string" where
  "trim s = rev (dropWhile is_space (rev (dropWhile is_space s)))"

text \<open>
  SQL \<^verbatim>\<open>TRIM(x)\<close> with no further argument removes the space character only, at both
  ends, in PostgreSQL and in MySQL.
\<close>

definition TRIM :: "string \<Rightarrow> string" where
  "TRIM s = rev (dropWhile (\<lambda>c. c = CHR '' '') (rev (dropWhile (\<lambda>c. c = CHR '' '') s)))"

text \<open>
  A JavaScript number is NaN, an infinity (\<open>Infinity True\<close> is the positive one), or a
  finite binary64 value, kept as the rational number it equals.
\<close>

datatype jsnum = NaN | Infinity bool | Fin rat

function bits :: "int \<Rightarrow> int" where
  \<comment> \<open>the length of a positive number in binary\<close>
  "bits n = (if n \<le> 0 then 0 else 1 + bits (n div 2))"
  by pat_completeness auto
termination
  by (relation "measure nat") auto

declare bits.simps [simp del]

function pow :: "int \<Rightarrow> int \<Rightarrow> int" where
  \<comment> \<open>\<open>b\<close> to the power \<open>k\<close>, and 1 for a negative \<open>k\<close>\<close>
  "pow b k = (if k \<le> 0 then 1 else b * pow b (k - 1))"
  by pat_completeness auto
termination
  by (relation "measure (\<lambda>(b, k). nat k)") auto

declare pow.simps [simp del]

definition ilog2 :: "int \<Rightarrow> int \<Rightarrow> int" where
  \<comment> \<open>the exponent \<open>e\<close> with \<open>2 ^ e \<le> p / d < 2 ^ (e + 1)\<close>, for \<open>p\<close> and \<open>d\<close> positive\<close>
  "ilog2 p d =
     (let e = bits p - bits d
      in if (if 0 \<le> e then pow 2 e * d \<le> p else d \<le> p * pow 2 (- e)) then e else e - 1)"

definition nearest_even :: "int \<Rightarrow> int \<Rightarrow> int" where
  \<comment> \<open>\<open>n / d\<close> rounded to the nearest integer, a tie to the even one\<close>
  "nearest_even n d =
     (let f = n div d; r = n mod d
      in if 2 * r < d then f else if d < 2 * r then f + 1 else if even f then f else f + 1)"

text \<open>
  \<open>round64 p d\<close> is the binary64 value nearest to \<open>p / d\<close>, a tie going to the even
  significand: the quotient is rounded to a multiple of \<open>2 ^ k\<close>, where \<open>k\<close> is 52
  below its binary exponent and not below \<open>- 1074\<close>; a magnitude that rounds to
  \<open>2 ^ 1024\<close> or more is an infinity.
\<close>

definition round64 :: "int \<Rightarrow> int \<Rightarrow> jsnum" where
  "round64 p0 d =
     (let p = \<bar>p0\<bar>
      in if p = 0 then Fin 0
         else (let k = max (ilog2 p d) (- 1022) - 52;
                   n = (if 0 \<le> k then nearest_even p (d * pow 2 k)
                        else nearest_even (p * pow 2 (- k)) d)
               in if pow 2 (1024 - k) \<le> n then Infinity (0 < p0)
                  else (let r = (if 0 \<le> k then of_int (n * pow 2 k)
                                 else of_int n / of_int (pow 2 (- k)))
                        in Fin (if 0 < p0 then r else - r))))"

text \<open>
  \<^verbatim>\<open>Number\<close> applied to a string reads a numeric literal between optional white space:
  a signed decimal with an optional fraction and exponent, a signed \<^verbatim>\<open>Infinity\<close>, or an
  unsigned hexadecimal, octal or binary integer. The empty string is 0 and any other
  text is NaN. \<open>Dec n e\<close> is the literal's exact value, \<open>n\<close> times ten to the \<open>e\<close>.
\<close>

datatype literal = Inf bool | Dec int int

definition digit_val :: "int \<Rightarrow> char \<Rightarrow> int option" where
  "digit_val b c =
     (let n = (of_char c :: int);
          d = (if 48 \<le> n \<and> n \<le> 57 then Some (n - 48)
               else if 97 \<le> n \<and> n \<le> 102 then Some (n - 87)
               else if 65 \<le> n \<and> n \<le> 70 then Some (n - 55)
               else None)
      in case d of None \<Rightarrow> None | Some k \<Rightarrow> if k < b then Some k else None)"

fun digits_val :: "int \<Rightarrow> int \<Rightarrow> string \<Rightarrow> int option" where
  "digits_val b acc [] = Some acc"
| "digits_val b acc (c # cs) =
     (case digit_val b c of None \<Rightarrow> None | Some d \<Rightarrow> digits_val b (acc * b + d) cs)"

definition digits_of :: "int \<Rightarrow> string \<Rightarrow> int option" where
  \<comment> \<open>one or more digits of the base\<close>
  "digits_of b s = (if s = [] then None else digits_val b 0 s)"

definition number_digits :: "nat \<Rightarrow> string \<Rightarrow> nat option" where
  \<comment> \<open>the same reading, as a natural number\<close>
  "number_digits b s = map_option nat (digits_of (int b) s)"

definition cut :: "(char \<Rightarrow> bool) \<Rightarrow> string \<Rightarrow> string \<times> string option" where
  \<comment> \<open>the text before the first character that satisfies P, and the text after it\<close>
  "cut P s = (takeWhile (\<lambda>c. \<not> P c) s,
              case dropWhile (\<lambda>c. \<not> P c) s of [] \<Rightarrow> None | _ # r \<Rightarrow> Some r)"

definition signed_integer :: "string \<Rightarrow> int option" where
  "signed_integer s =
     (case s of
        c # r \<Rightarrow>
          if c = CHR ''+'' then digits_of 10 r
          else if c = CHR ''-'' then map_option uminus (digits_of 10 r)
          else digits_of 10 s
      | [] \<Rightarrow> None)"

definition mantissa :: "string \<Rightarrow> (int \<times> int) option" where
  \<comment> \<open>the digits as one integer, and minus the number of digits after the point\<close>
  "mantissa m =
     (case cut (\<lambda>c. c = CHR ''.'') m of
        (ip, None) \<Rightarrow> map_option (\<lambda>i. (i, 0)) (digits_of 10 ip)
      | (ip, Some fp) \<Rightarrow>
          if ip = [] \<and> fp = [] then None
          else map_option (\<lambda>n. (n, - int (length fp))) (digits_val 10 0 (ip @ fp)))"

definition unsigned_decimal :: "string \<Rightarrow> literal option" where
  "unsigned_decimal s =
     (if s = ''Infinity'' then Some (Inf True)
      else case cut (\<lambda>c. c = CHR ''e'' \<or> c = CHR ''E'') s of
             (m, None) \<Rightarrow> map_option (\<lambda>(n, e). Dec n e) (mantissa m)
           | (m, Some x) \<Rightarrow>
               (case (mantissa m, signed_integer x) of
                  (Some (n, e), Some k) \<Rightarrow> Some (Dec n (e + k))
                | _ \<Rightarrow> None))"

fun negate :: "literal \<Rightarrow> literal" where
  "negate (Inf b) = Inf (\<not> b)"
| "negate (Dec n e) = Dec (- n) e"

definition radix_literal :: "string \<Rightarrow> literal option" where
  "radix_literal s =
     (case s of
        z # x # r \<Rightarrow>
          if z \<noteq> CHR ''0'' then None
          else if x = CHR ''x'' \<or> x = CHR ''X'' then map_option (\<lambda>n. Dec n 0) (digits_of 16 r)
          else if x = CHR ''o'' \<or> x = CHR ''O'' then map_option (\<lambda>n. Dec n 0) (digits_of 8 r)
          else if x = CHR ''b'' \<or> x = CHR ''B'' then map_option (\<lambda>n. Dec n 0) (digits_of 2 r)
          else None
      | _ \<Rightarrow> None)"

definition numeric_literal :: "string \<Rightarrow> literal option" where
  "numeric_literal s =
     (case radix_literal s of
        Some n \<Rightarrow> Some n
      | None \<Rightarrow>
          (case s of
             c # r \<Rightarrow>
               if c = CHR ''+'' then unsigned_decimal r
               else if c = CHR ''-'' then map_option negate (unsigned_decimal r)
               else unsigned_decimal s
           | [] \<Rightarrow> None))"

fun to_number :: "literal \<Rightarrow> jsnum" where
  "to_number (Inf b) = Infinity b"
| "to_number (Dec n e) =
     (if 0 \<le> e then round64 (n * pow 10 e) 1 else round64 n (pow 10 (- e)))"

definition Number :: "string option \<Rightarrow> jsnum" where
  \<comment> \<open>\<^verbatim>\<open>Number(x)\<close> for a request field: \<open>None\<close> is \<^verbatim>\<open>undefined\<close>\<close>
  "Number x =
     (case x of
        None \<Rightarrow> NaN
      | Some s \<Rightarrow>
          if trim s = [] then Fin 0
          else (case numeric_literal (trim s) of None \<Rightarrow> NaN | Some l \<Rightarrow> to_number l))"

text \<open>
  A value of a JSON request body, or \<^verbatim>\<open>undefined\<close> for a field that is missing.
  Arrays and objects are not told apart: the handlers only ever call \<^verbatim>\<open>trim\<close> on a
  field, which neither has.
\<close>

datatype jsv = JUndefined | JNull | JBool bool | JNum jsnum | JStr string | JCompound

datatype error = TypeError | DbError

fun opt_trim :: "jsv \<Rightarrow> error + string option" where
  \<comment> \<open>\<^verbatim>\<open>x?.trim()\<close>; \<open>None\<close> is \<^verbatim>\<open>undefined\<close>\<close>
  "opt_trim JUndefined = Inr None"
| "opt_trim JNull = Inr None"
| "opt_trim (JStr s) = Inr (Some (trim s))"
| "opt_trim _ = Inl TypeError"

definition or_empty :: "string option \<Rightarrow> string" where
  \<comment> \<open>\<^verbatim>\<open>x || ""\<close> for a string or \<^verbatim>\<open>undefined\<close>\<close>
  "or_empty x = (case x of None \<Rightarrow> [] | Some s \<Rightarrow> s)"

definition as_jsv :: "string option \<Rightarrow> jsv" where
  "as_jsv x = (case x of None \<Rightarrow> JUndefined | Some s \<Rightarrow> JStr s)"

type_synonym query = "(string \<times> string) list"
type_synonym form = "(string \<times> string) list"
type_synonym json_body = "(string \<times> jsv) list"

definition field :: "json_body \<Rightarrow> string \<Rightarrow> jsv" where
  "field b k = (case map_of b k of None \<Rightarrow> JUndefined | Some x \<Rightarrow> x)"

subsection \<open>The table and the store\<close>

text \<open>
  Modelled from the spec: the table \<^verbatim>\<open>class_semester_info\<close>, whose declaration is not in
  the repository. The columns are the ones the statements name, typed as the data model
  of the specification types them; every data column may hold NULL (\<open>None\<close>), since no
  constraint is visible in the source.
\<close>

record row =
  id_col :: int
  class_name :: "string option"
  semester :: "int option"
  section_col :: "string option"
  academic_year :: "string option"
  mentor_name :: "string option"
  designation :: "string option"
  contact :: "string option"
  timetable_link :: "string option"
  syllabus_link :: "string option"
  mentor_photo :: "string option"

text \<open>
  The state the handlers share: the table, the counter that numbers new rows, whether the
  store answers the next statement with an error, and the files on disk.
\<close>

record state =
  table :: "row list"
  next_id :: int
  failing :: bool
  disk :: "string list"

text \<open>
  How the engine reads a value bound to an integer column is not in the source. It is a
  parameter of the handlers that bind such a value as it came in; \<open>None\<close> is NULL.
\<close>

type_synonym cast = "jsv \<Rightarrow> int option"

definition bind_int :: "cast \<Rightarrow> jsv \<Rightarrow> int option" where
  \<comment> \<open>both drivers send \<^verbatim>\<open>undefined\<close> and \<^verbatim>\<open>null\<close> as NULL\<close>
  "bind_int cast x = (case x of JUndefined \<Rightarrow> None | JNull \<Rightarrow> None | _ \<Rightarrow> cast x)"

definition db_query :: "state \<Rightarrow> (row list \<Rightarrow> 'a) \<Rightarrow> error + 'a" where
  "db_query st q = (if failing st then Inl DbError else Inr (q (table st)))"

definition sql_eq :: "'a option \<Rightarrow> 'a option \<Rightarrow> bool" where
  \<comment> \<open>\<^verbatim>\<open>a = b\<close> in a WHERE clause: not true when either side is NULL; text is compared
      character by character, as under a binary collation\<close>
  "sql_eq a b = (case (a, b) of (Some x, Some y) \<Rightarrow> x = y | _ \<Rightarrow> False)"

text \<open>
  A JavaScript number bound to the comparison with the integer column. Neither the
  driver nor the engine is in the source; this is what they do with the value.
  \<^verbatim>\<open>pg\<close> sends the number as its text and PostgreSQL reads that text as a four-byte
  integer: NaN, an infinity, a fraction and a value out of range make the statement
  fail. \<^verbatim>\<open>mysql2\<close> writes the number into the statement: NaN and the infinities
  become bare words that name no column and the statement fails, and any finite number
  is a literal that is compared by value.
\<close>

fun rejects :: "variant \<Rightarrow> jsnum \<Rightarrow> bool" where
  "rejects Supabase (Fin q) = (q \<noteq> of_int \<lfloor>q\<rfloor> \<or> q < - (2 ^ 31) \<or> 2 ^ 31 \<le> q)"
| "rejects MySQL (Fin q) = False"
| "rejects v _ = True"

definition bound :: "variant \<Rightarrow> jsnum \<Rightarrow> error + rat" where
  "bound v n = (case n of Fin q \<Rightarrow> if rejects v n then Inl DbError else Inr q | _ \<Rightarrow> Inl DbError)"

definition column_eq :: "int option \<Rightarrow> rat \<Rightarrow> bool" where
  \<comment> \<open>the integer column compared with a number the engine took\<close>
  "column_eq c q = sql_eq (map_option of_int c) (Some q)"

definition DISTINCT :: "'a list \<Rightarrow> 'a list" where
  \<comment> \<open>each value once, in the order of its first row\<close>
  "DISTINCT xs = rev (remdups (rev xs))"

definition nulls_key :: "variant \<Rightarrow> 'a \<Rightarrow> 'a option \<Rightarrow> bool \<times> 'a" where
  \<comment> \<open>ascending order puts NULL last in PostgreSQL and first in MySQL\<close>
  "nulls_key v d x =
     (case x of None \<Rightarrow> (v = Supabase, d) | Some a \<Rightarrow> (v = MySQL, a))"

definition LIMIT_1 :: "'a list \<Rightarrow> 'a list" where
  "LIMIT_1 xs = take 1 xs"

subsection \<open>Responses\<close>

type_synonym summary =
  "int \<times> string option \<times> int option \<times> string option \<times> string option \<times> string option"

datatype body =
    Null
  | Classes "string option list"
  | Semesters "int option list"
  | Sections "string option list"
  | Details row
  | Records "summary list"
  | Message string
  | Error string

text \<open>
  \<open>Resp s b\<close> is \<^verbatim>\<open>res.status(s).json(b)\<close>. \<open>Uncaught\<close> is a handler that throws
  outside any \<^verbatim>\<open>try\<close>: the handler itself sends nothing.
\<close>

datatype response = Resp nat body | Uncaught

subsection \<open>Lookup routes\<close>

text \<open>\<^verbatim>\<open>GET /api/classes\<close>: \<^verbatim>\<open>server.js\<close> lines 41-50, the MySQL file lines 40-46.\<close>

definition get_classes :: "variant \<Rightarrow> state \<Rightarrow> response" where
  "get_classes v st =
     (case db_query st (\<lambda>t.
             case v of
               Supabase \<Rightarrow> sort_key (nulls_key v []) (DISTINCT (map class_name t))
             | MySQL \<Rightarrow> DISTINCT (map class_name t)) of
        Inl _ \<Rightarrow> Resp 500 (Classes [])
      | Inr rs \<Rightarrow> Resp 200 (Classes rs))"

text \<open>\<^verbatim>\<open>GET /api/semesters\<close>: \<^verbatim>\<open>server.js\<close> lines 55-65, the MySQL file lines 51-58.\<close>

definition get_semesters :: "variant \<Rightarrow> state \<Rightarrow> query \<Rightarrow> response" where
  "get_semesters v st q =
     (case db_query st (\<lambda>t.
             let hits = map semester (filter (\<lambda>r. sql_eq (class_name r) (map_of q ''class'')) t)
             in case v of
                  Supabase \<Rightarrow> sort_key (nulls_key v 0) (DISTINCT hits)
                | MySQL \<Rightarrow> DISTINCT hits) of
        Inl _ \<Rightarrow> Resp 500 (Semesters [])
      | Inr rs \<Rightarrow> Resp 200 (Semesters rs))"

text \<open>\<^verbatim>\<open>GET /api/sections\<close>: \<^verbatim>\<open>server.js\<close> lines 70-87, the MySQL file lines 63-80.\<close>

definition not_blank :: "variant \<Rightarrow> string option \<Rightarrow> bool" where
  \<comment> \<open>\<^verbatim>\<open>section IS NOT NULL AND TRIM(section) <> ''\<close>, or \<^verbatim>\<open>section != ''\<close> in the MySQL file\<close>
  "not_blank v x =
     (case x of
        None \<Rightarrow> False
      | Some s \<Rightarrow> (case v of Supabase \<Rightarrow> TRIM s \<noteq> [] | MySQL \<Rightarrow> s \<noteq> []))"

definition get_sections :: "variant \<Rightarrow> cast \<Rightarrow> state \<Rightarrow> query \<Rightarrow> response" where
  "get_sections v cast st q =
     (case db_query st (\<lambda>t.
             DISTINCT (map section_col (filter (\<lambda>r.
               sql_eq (class_name r) (map_of q ''class'')
               \<and> sql_eq (semester r) (bind_int cast (as_jsv (map_of q ''semester'')))
               \<and> not_blank v (section_col r)) t))) of
        Inl _ \<Rightarrow> Resp 500 (Sections [])
      | Inr rs \<Rightarrow> Resp 200 (Sections rs))"

text \<open>
  \<^verbatim>\<open>GET /api/details\<close>: \<^verbatim>\<open>server.js\<close> lines 92-131, the MySQL file lines 85-119. The two
  files run the same two statements.
\<close>

definition get_details :: "variant \<Rightarrow> state \<Rightarrow> query \<Rightarrow> response" where
  "get_details v st q =
     (let className = map_option trim (map_of q ''class'');
          sem = Number (map_of q ''semester'');
          sect = trim (or_empty (map_of q ''section''));
          result =
            (case bound v sem of
               Inl e \<Rightarrow> Inl e
             | Inr n \<Rightarrow>
                 if sect \<noteq> [] then
                   db_query st (\<lambda>t. LIMIT_1 (filter (\<lambda>r.
                     sql_eq (map_option TRIM (class_name r)) className
                     \<and> column_eq (semester r) n
                     \<and> sql_eq (map_option TRIM (section_col r)) (Some sect)) t))
                 else
                   db_query st (\<lambda>t. LIMIT_1 (filter (\<lambda>r.
                     sql_eq (map_option TRIM (class_name r)) className
                     \<and> column_eq (semester r) n
                     \<and> (section_col r = None \<or> map_option TRIM (section_col r) = Some [])) t)))
      in case result of
           Inl _ \<Rightarrow> Resp 500 Null
         | Inr [] \<Rightarrow> Resp 200 Null
         | Inr (r # _) \<Rightarrow> Resp 200 (Details r))"

subsection \<open>Upload storage\<close>

text \<open>
  An uploaded file as the storage engine sees it: the name the client gave it, and the
  reading of \<^verbatim>\<open>Date.now()\<close> taken when its stored name is made.
\<close>

record upload =
  originalname :: string
  clock :: nat

definition destination :: "string \<Rightarrow> string option" where
  \<comment> \<open>no branch of the source covers another field name: the callback is never called\<close>
  "destination fieldname =
     (if fieldname = ''syllabus'' then Some ''uploads/syllabus''
      else if fieldname = ''mentor_photo'' then Some ''uploads/mentors''
      else None)"

function replace_ws :: "string \<Rightarrow> string" where
  \<comment> \<open>\<^verbatim>\<open>replace(/\s+/g, "_")\<close>: every maximal run of white space becomes one underscore\<close>
  "replace_ws [] = []"
| "replace_ws (c # cs) =
     (if is_space c then CHR ''_'' # replace_ws (dropWhile is_space cs)
      else c # replace_ws cs)"
  by pat_completeness auto
termination
  by (relation "measure length") (auto simp: le_imp_less_Suc length_dropWhile_le)

definition digit_char :: "nat \<Rightarrow> char" where
  "digit_char d = ''0123456789'' ! d"

fun decimal :: "nat \<Rightarrow> string" where
  "decimal n = (if n < 10 then [digit_char n] else decimal (n div 10) @ [digit_char (n mod 10)])"

declare decimal.simps [simp del]

definition filename :: "upload \<Rightarrow> string" where
  "filename f = decimal (clock f) @ ''_'' @ replace_ws (originalname f)"

definition written :: "string \<Rightarrow> upload option \<Rightarrow> string list" where
  \<comment> \<open>the file the storage engine writes for one field of the form, if the field came\<close>
  "written fieldname f =
     (case f of
        None \<Rightarrow> []
      | Some u \<Rightarrow> (case destination fieldname of
                    None \<Rightarrow> []
                  | Some d \<Rightarrow> [d @ ''/'' @ filename u]))"

subsection \<open>Admin routes\<close>

text \<open>
  \<^verbatim>\<open>POST /api/admin/add\<close>: \<^verbatim>\<open>server.js\<close> lines 156-212, the MySQL file lines 146-200. The
  storage engine has written the files before the handler runs.
\<close>

definition then_do :: "error + 'a \<Rightarrow> ('a \<Rightarrow> error + 'b) \<Rightarrow> error + 'b" where
  "then_do x f = (case x of Inl e \<Rightarrow> Inl e | Inr a \<Rightarrow> f a)"

definition add_values ::
  "variant \<Rightarrow> cast \<Rightarrow> form \<Rightarrow> int \<Rightarrow> string option \<Rightarrow> string option \<Rightarrow> error + row" where
  \<comment> \<open>the ten values of the INSERT, and the number the store gives the row\<close>
  "add_values v cast b n syllabusPath photoPath =
     (case v of
        Supabase \<Rightarrow>
          Inr \<lparr> id_col = n,
                class_name = Some (trim (or_empty (map_of b ''class_name''))),
                semester = bind_int cast (JNum (Number (map_of b ''semester''))),
                section_col = Some (trim (or_empty (map_of b ''section''))),
                academic_year = Some (trim (or_empty (map_of b ''academic_year''))),
                mentor_name = Some (trim (or_empty (map_of b ''mentor_name''))),
                designation = Some (trim (or_empty (map_of b ''designation''))),
                contact = Some (trim (or_empty (map_of b ''contact''))),
                timetable_link =
                  (if or_empty (map_of b ''timetable_link'') \<noteq> []
                   then Some (trim (or_empty (map_of b ''timetable_link''))) else None),
                syllabus_link = syllabusPath,
                mentor_photo = photoPath \<rparr>
      | MySQL \<Rightarrow>
          then_do (opt_trim (as_jsv (map_of b ''class_name''))) (\<lambda>cn.
          then_do (opt_trim (as_jsv (map_of b ''section''))) (\<lambda>sec.
          then_do (opt_trim (as_jsv (map_of b ''academic_year''))) (\<lambda>ay.
          then_do (opt_trim (as_jsv (map_of b ''mentor_name''))) (\<lambda>mn.
          then_do (opt_trim (as_jsv (map_of b ''designation''))) (\<lambda>de.
          then_do (opt_trim (as_jsv (map_of b ''contact''))) (\<lambda>co.
          then_do (opt_trim (as_jsv (map_of b ''timetable_link''))) (\<lambda>tl.
            Inr \<lparr> id_col = n,
                  class_name = cn,
                  semester = bind_int cast (as_jsv (map_of b ''semester'')),
                  section_col = Some (or_empty sec),
                  academic_year = ay,
                  mentor_name = mn,
                  designation = de,
                  contact = co,
                  timetable_link = tl,
                  syllabus_link = syllabusPath,
                  mentor_photo = photoPath \<rparr>))))))))"

definition post_admin_add ::
  "variant \<Rightarrow> cast \<Rightarrow> state \<Rightarrow> form \<Rightarrow> upload option \<Rightarrow> upload option \<Rightarrow> response \<times> state" where
  "post_admin_add v cast st b syllabus photo =
     (let st1 = st\<lparr>disk := disk st @ written ''syllabus'' syllabus @ written ''mentor_photo'' photo\<rparr>;
          syllabusPath = map_option (\<lambda>f. ''/uploads/syllabus/'' @ filename f) syllabus;
          photoPath = map_option (\<lambda>f. ''/uploads/mentors/'' @ filename f) photo
      in case add_values v cast b (next_id st) syllabusPath photoPath of
           Inl _ \<Rightarrow> (case v of Supabase \<Rightarrow> Resp 500 (Error ''Insert failed'') | MySQL \<Rightarrow> Uncaught, st1)
         | Inr r \<Rightarrow>
             if failing st then (Resp 500 (Error ''Insert failed''), st1)
             else (Resp 200 (Message ''Record added successfully''),
                   st1\<lparr>table := table st @ [r], next_id := next_id st + 1\<rparr>))"

text \<open>\<^verbatim>\<open>GET /api/admin/records\<close>: \<^verbatim>\<open>server.js\<close> lines 217-231, the MySQL file lines 205-216.\<close>

definition get_admin_records :: "variant \<Rightarrow> state \<Rightarrow> response" where
  "get_admin_records v st =
     (case db_query st (\<lambda>t.
             map (\<lambda>r. (id_col r, class_name r, semester r, section_col r, mentor_name r, designation r))
               (sort_key (\<lambda>r. (nulls_key v [] (class_name r), nulls_key v 0 (semester r))) t)) of
        Inl _ \<Rightarrow> Resp 500 (Records [])
      | Inr rs \<Rightarrow> Resp 200 (Records rs))"

text \<open>
  \<^verbatim>\<open>PUT /api/admin/update/:id\<close>: \<^verbatim>\<open>server.js\<close> lines 236-274, the MySQL file lines
  221-260. Only \<^verbatim>\<open>server.js\<close> wraps the handler in \<^verbatim>\<open>try\<close>.
\<close>

definition update_values :: "cast \<Rightarrow> json_body \<Rightarrow> error + (row \<Rightarrow> row)" where
  \<comment> \<open>the SET clause of the UPDATE, with its eight bound values\<close>
  "update_values cast b =
     then_do (opt_trim (field b ''class_name'')) (\<lambda>cn.
     then_do (opt_trim (field b ''section'')) (\<lambda>sec.
     then_do (opt_trim (field b ''academic_year'')) (\<lambda>ay.
     then_do (opt_trim (field b ''mentor_name'')) (\<lambda>mn.
     then_do (opt_trim (field b ''designation'')) (\<lambda>de.
     then_do (opt_trim (field b ''contact'')) (\<lambda>co.
     then_do (opt_trim (field b ''timetable_link'')) (\<lambda>tl.
       Inr (\<lambda>r. r\<lparr> class_name := cn,
                    semester := bind_int cast (field b ''semester''),
                    section_col := Some (or_empty sec),
                    academic_year := ay,
                    mentor_name := mn,
                    designation := de,
                    contact := co,
                    timetable_link := tl \<rparr>))))))))"

definition has_id :: "cast \<Rightarrow> string \<Rightarrow> row \<Rightarrow> bool" where
  \<comment> \<open>\<^verbatim>\<open>WHERE id=$n\<close>, the path parameter bound as text\<close>
  "has_id cast i r = sql_eq (Some (id_col r)) (bind_int cast (JStr i))"

definition put_admin_update ::
  "variant \<Rightarrow> cast \<Rightarrow> state \<Rightarrow> string \<Rightarrow> json_body \<Rightarrow> response \<times> state" where
  "put_admin_update v cast st i b =
     (case update_values cast b of
        Inl _ \<Rightarrow> (case v of Supabase \<Rightarrow> Resp 500 (Error ''Update failed'') | MySQL \<Rightarrow> Uncaught, st)
      | Inr upd \<Rightarrow>
          if failing st then (Resp 500 (Error ''Update failed''), st)
          else (Resp 200 (Message ''Record updated successfully''),
                st\<lparr>table := map (\<lambda>r. if has_id cast i r then upd r else r) (table st)\<rparr>))"

text \<open>\<^verbatim>\<open>DELETE /api/admin/delete/:id\<close>: \<^verbatim>\<open>server.js\<close> lines 279-289, the MySQL file lines 265-274.\<close>

definition delete_admin_delete :: "variant \<Rightarrow> cast \<Rightarrow> state \<Rightarrow> string \<Rightarrow> response \<times> state" where
  "delete_admin_delete v cast st i =
     (if failing st then (Resp 500 (Error ''Delete failed''), st)
      else (Resp 200 (Message ''Record deleted successfully''),
            st\<lparr>table := filter (\<lambda>r. \<not> has_id cast i r) (table st)\<rparr>))"

subsection \<open>The router\<close>

datatype request =
    GET_classes
  | GET_semesters query
  | GET_sections query
  | GET_details query
  | POST_add form "upload option" "upload option"
  | GET_records
  | PUT_update string json_body
  | DELETE_delete string

fun handle :: "variant \<Rightarrow> cast \<Rightarrow> state \<Rightarrow> request \<Rightarrow> response \<times> state" where
  "handle v cast st GET_classes = (get_classes v st, st)"
| "handle v cast st (GET_semesters q) = (get_semesters v st q, st)"
| "handle v cast st (GET_sections q) = (get_sections v cast st q, st)"
| "handle v cast st (GET_details q) = (get_details v st q, st)"
| "handle v cast st (POST_add b s p) = post_admin_add v cast st b s p"
| "handle v cast st GET_records = (get_admin_records v st, st)"
| "handle v cast st (PUT_update i b) = put_admin_update v cast st i b"
| "handle v cast st (DELETE_delete i) = delete_admin_delete v cast st i"

subsection \<open>The properties, in the words of the specification\<close>



text \<open>
  A stored section that is NULL or nothing but the space character: what
  \<^verbatim>\<open>section IS NULL OR TRIM(section) = ''\<close> selects. A section of other white space, a TAB
  for one, is not of this kind.
\<close>

definition null_or_spaces :: "string option \<Rightarrow> bool" where
  "null_or_spaces x = (case x of None \<Rightarrow> True | Some s \<Rightarrow> TRIM s = [])"

text \<open>
  What an update is specified to leave in a record: each text field trimmed, NULL when
  it is missing; the section trimmed, empty when it is missing; the semester as the
  store reads the value sent; the identity and the two attachment fields as they were.
\<close>

definition text_rule :: "jsv \<Rightarrow> string option" where
  "text_rule x = (case x of JStr s \<Rightarrow> Some (trim s) | _ \<Rightarrow> None)"

definition section_rule :: "jsv \<Rightarrow> string" where
  "section_rule x = (case x of JStr s \<Rightarrow> trim s | _ \<Rightarrow> [])"

definition overwrite :: "cast \<Rightarrow> json_body \<Rightarrow> row \<Rightarrow> row" where
  "overwrite cast b r =
     \<lparr> id_col = id_col r,
       class_name = text_rule (field b ''class_name''),
       semester = bind_int cast (field b ''semester''),
       section_col = Some (section_rule (field b ''section'')),
       academic_year = text_rule (field b ''academic_year''),
       mentor_name = text_rule (field b ''mentor_name''),
       designation = text_rule (field b ''designation''),
       contact = text_rule (field b ''contact''),
       timetable_link = text_rule (field b ''timetable_link''),
       syllabus_link = syllabus_link r,
       mentor_photo = mentor_photo r \<rparr>"

text \<open>
  A body on which \<^verbatim>\<open>?.trim()\<close> does not throw: each of the seven text fields is a
  string, \<^verbatim>\<open>null\<close> or missing.
\<close>

definition is_text :: "jsv \<Rightarrow> bool" where
  "is_text x = (case x of JUndefined \<Rightarrow> True | JNull \<Rightarrow> True | JStr _ \<Rightarrow> True | _ \<Rightarrow> False)"

definition text_ok :: "json_body \<Rightarrow> bool" where
  "text_ok b \<longleftrightarrow>
     is_text (field b ''class_name'') \<and> is_text (field b ''section'')
     \<and> is_text (field b ''academic_year'') \<and> is_text (field b ''mentor_name'')
     \<and> is_text (field b ''designation'') \<and> is_text (field b ''contact'')
     \<and> is_text (field b ''timetable_link'')"

definition json_of :: "form \<Rightarrow> json_body" where
  \<comment> \<open>the fields of a form, sent as a JSON body of strings\<close>
  "json_of f = map (\<lambda>(k, s). (k, JStr s)) f"






subsection \<open>Sample data\<close>

definition sample_cast :: cast where
  \<comment> \<open>an engine that reads decimal text and whole numbers, and nothing else\<close>
  "sample_cast x =
     (case x of
        JStr s \<Rightarrow> signed_integer s
      | JNum (Fin q) \<Rightarrow> if q = of_int \<lfloor>q\<rfloor> then Some \<lfloor>q\<rfloor> else None
      | _ \<Rightarrow> None)"

definition mk_row :: "int \<Rightarrow> string \<Rightarrow> int \<Rightarrow> string option \<Rightarrow> row" where
  "mk_row n c k s =
     \<lparr> id_col = n, class_name = Some c, semester = Some k, section_col = s,
       academic_year = Some ''2024-25'', mentor_name = Some ''Rao'',
       designation = Some ''Professor'', contact = Some ''100'',
       timetable_link = None, syllabus_link = Some ''/uploads/syllabus/1_s.pdf'',
       mentor_photo = None \<rparr>"

definition store_of :: "row list \<Rightarrow> state" where
  "store_of t = \<lparr> table = t, next_id = 1 + int (length t), failing = False, disk = [] \<rparr>"

definition sample_rows :: "row list" where
  "sample_rows =
     [mk_row 1 ''Physics'' 2 (Some ''B''),
      mk_row 2 ''Physics'' 1 (Some ''  ''),
      mk_row 3 ''Chemistry'' 3 (Some ''A''),
      mk_row 4 '' Chemistry '' 3 None,
      mk_row 5 ''Physics'' 2 (Some ''B'')]"

definition sample_form :: form where
  "sample_form =
     [(''class_name'', '' Maths ''), (''semester'', ''1''), (''mentor_name'', ''A''),
      (''timetable_link'', [])]"

definition sample_upload :: upload where
  "sample_upload = \<lparr> originalname = ''unit  plan 1.pdf'', clock = 1700000000000 \<rparr>"

section \<open>Properties of the lookup routes\<close>

lemma set_DISTINCT: "set (DISTINCT xs) = set xs"
  by (simp add: DISTINCT_def)

lemma distinct_DISTINCT: "distinct (DISTINCT xs)"
  by (simp add: DISTINCT_def)

lemma sql_eq_iff: "sql_eq a b \<longleftrightarrow> a = b \<and> a \<noteq> None"
  by (cases a; cases b) (simp_all add: sql_eq_def)


text \<open>
  \<^verbatim>\<open>Number\<close> on some literals: a value beyond the largest binary64 number is an
  infinity, a decimal is the binary64 number nearest to it, and text that is no literal
  is NaN.
\<close>

lemma Number_examples:
  "Number (Some ''1e309'') = Infinity True"
  "Number (Some ''3.0000000000000000000001'') = Fin 3"
  "Number (Some ''9007199254740993'') = Fin 9007199254740992"
  "Number (Some ''0.1'') = Fin (3602879701896397 / 36028797018963968)"
  "Number (Some ''2e-324'') = Fin 0"
  "Number (Some '' 0x1F '') = Fin 31"
  "Number (Some []) = Fin 0"
  "Number (Some ''3 4'') = NaN"
  "Number None = NaN"
  by code_simp+

lemma bound_rejected: "rejects v n \<Longrightarrow> bound v n = Inl DbError"
  by (cases n) (simp_all add: bound_def)



subsection \<open>Details\<close>



lemma details_rejected:
  assumes "rejects v (Number (map_of q ''semester''))"
  shows "get_details v st q = Resp 500 Null"
  using assms by (simp add: get_details_def Let_def bound_rejected)






lemma details_NaN:
  assumes "Number (map_of q ''semester'') = NaN"
  shows "get_details v st q = Resp 500 Null"
  using assms by (simp add: details_rejected)

text \<open>
  C5. \<^verbatim>\<open>Number\<close> turns a semester that is no numeric literal into NaN, and the handlers
  bind it as it is. The engine rejects the statement in both variants, and the request
  \<^verbatim>\<open>class=Chemistry&semester=xyz\<close> is answered with status 500 and the body \<^verbatim>\<open>null\<close>,
  not with status 200.
\<close>

theorem details_non_numeric:
  "Number (map_of [(''class'', ''Chemistry''), (''semester'', ''xyz'')] ''semester'') = NaN
   \<and> get_details Supabase (store_of sample_rows) [(''class'', ''Chemistry''), (''semester'', ''xyz'')]
       = Resp 500 Null
   \<and> get_details MySQL (store_of sample_rows) [(''class'', ''Chemistry''), (''semester'', ''xyz'')]
       = Resp 500 Null"
proof -
  have h: "Number (map_of [(''class'', ''Chemistry''), (''semester'', ''xyz'')] ''semester'') = NaN"
    by code_simp
  show ?thesis
    using h details_NaN [OF h] by simp
qed

subsection \<open>Classes, semesters and sections\<close>

lemma classes_each_once:
  assumes "\<not> failing st"
  shows "\<exists>out. get_classes v st = Resp 200 (Classes out) \<and> distinct out
           \<and> set out = class_name ` set (table st)"
  using assms
  by (cases v) (simp_all add: get_classes_def db_query_def set_DISTINCT distinct_DISTINCT)

lemma classes_sorted_Supabase:
  assumes "get_classes Supabase st = Resp 200 (Classes out)"
  shows "sorted (map (nulls_key Supabase []) out)"
  using assms
  by (auto simp: get_classes_def db_query_def split: if_splits)

lemma semesters_each_once:
  assumes "\<not> failing st"
  shows "\<exists>out. get_semesters v st q = Resp 200 (Semesters out) \<and> distinct out
           \<and> set out = semester ` {r \<in> set (table st).
                 class_name r = map_of q ''class'' \<and> class_name r \<noteq> None}"
  using assms
  by (cases v)
     (simp_all add: get_semesters_def db_query_def set_DISTINCT distinct_DISTINCT sql_eq_iff)

lemma semesters_sorted_Supabase:
  assumes "get_semesters Supabase st q = Resp 200 (Semesters out)"
  shows "sorted (map (nulls_key Supabase 0) out)"
  using assms
  by (auto simp: get_semesters_def db_query_def split: if_splits)

lemma not_blank_Supabase: "not_blank Supabase x = (\<not> null_or_spaces x)"
  by (simp add: not_blank_def null_or_spaces_def split: option.splits)

lemma sections_Supabase:
  assumes "\<not> failing st"
  shows "\<exists>out. get_sections Supabase cast st q = Resp 200 (Sections out) \<and> distinct out
           \<and> set out = section_col ` {r \<in> set (table st).
                 sql_eq (class_name r) (map_of q ''class'')
                 \<and> sql_eq (semester r) (bind_int cast (as_jsv (map_of q ''semester'')))
                 \<and> \<not> null_or_spaces (section_col r)}"
  using assms
  by (auto simp: get_sections_def db_query_def set_DISTINCT distinct_DISTINCT not_blank_Supabase)

text \<open>
  C2. The sections query of the MySQL file tests \<^verbatim>\<open>section != ''\<close> where the Supabase
  file tests \<^verbatim>\<open>TRIM(section) <> ''\<close>. On a table whose only row for Physics, semester 1,
  has a section of two spaces, the MySQL variant returns that section and the Supabase
  variant returns no section.
\<close>

theorem sections_blank_MySQL:
  "get_sections MySQL sample_cast (store_of sample_rows)
       [(''class'', ''Physics''), (''semester'', ''1'')]
     = Resp 200 (Sections [Some ''  ''])
   \<and> get_sections Supabase sample_cast (store_of sample_rows)
       [(''class'', ''Physics''), (''semester'', ''1'')]
     = Resp 200 (Sections [])"
  by code_simp

text \<open>
  C3. The classes query of the MySQL file has no ORDER BY. On a table that holds
  Physics before Chemistry the MySQL variant returns the names in that order, and the
  Supabase variant returns them sorted.
\<close>

theorem classes_order_MySQL:
  "get_classes MySQL (store_of [mk_row 1 ''Physics'' 2 None, mk_row 2 ''Chemistry'' 3 None])
     = Resp 200 (Classes [Some ''Physics'', Some ''Chemistry''])
   \<and> get_classes Supabase (store_of [mk_row 1 ''Physics'' 2 None, mk_row 2 ''Chemistry'' 3 None])
     = Resp 200 (Classes [Some ''Chemistry'', Some ''Physics''])"
  by code_simp

text \<open>
  C4. The semesters query of the MySQL file has no ORDER BY. On a table that holds
  Physics in semester 2 before Physics in semester 1 the MySQL variant returns 2 before
  1, and the Supabase variant returns 1 before 2.
\<close>

theorem semesters_order_MySQL:
  "get_semesters MySQL (store_of sample_rows) [(''class'', ''Physics'')]
     = Resp 200 (Semesters [Some 2, Some 1])
   \<and> get_semesters Supabase (store_of sample_rows) [(''class'', ''Physics'')]
     = Resp 200 (Semesters [Some 1, Some 2])"
  by code_simp

section \<open>Properties of the admin routes\<close>

subsection \<open>Bound values\<close>

lemma opt_trim_text: "is_text x \<Longrightarrow> opt_trim x = Inr (text_rule x)"
  by (cases x) (simp_all add: is_text_def text_rule_def)

lemma opt_trim_not_text: "\<not> is_text x \<Longrightarrow> opt_trim x = Inl TypeError"
  by (cases x) (simp_all add: is_text_def)

lemma or_empty_text_rule: "or_empty (text_rule x) = section_rule x"
  by (cases x) (simp_all add: or_empty_def text_rule_def section_rule_def)

lemma then_do_Inr: "then_do (Inr a) f = f a"
  by (simp add: then_do_def)

lemma then_do_Inl: "then_do (Inl e) f = Inl e"
  by (simp add: then_do_def)

lemma overwrite_alt:
  "overwrite cast b r =
     r\<lparr> class_name := text_rule (field b ''class_name''),
        semester := bind_int cast (field b ''semester''),
        section_col := Some (section_rule (field b ''section'')),
        academic_year := text_rule (field b ''academic_year''),
        mentor_name := text_rule (field b ''mentor_name''),
        designation := text_rule (field b ''designation''),
        contact := text_rule (field b ''contact''),
        timetable_link := text_rule (field b ''timetable_link'') \<rparr>"
  by (cases r) (simp add: overwrite_def)

lemma update_values_ok:
  assumes "text_ok b"
  shows "update_values cast b = Inr (overwrite cast b)"
proof -
  have "update_values cast b = Inr (\<lambda>r. overwrite cast b r)"
    using assms
    unfolding overwrite_alt
    by (simp add: update_values_def text_ok_def opt_trim_text then_do_Inr or_empty_text_rule)
  then show ?thesis by simp
qed

lemma update_values_bad:
  assumes "\<not> text_ok b"
  shows "update_values cast b = Inl TypeError"
proof -
  have t: "\<And>x f. then_do (opt_trim x) f = (if is_text x then f (text_rule x) else Inl TypeError)"
    by (simp add: opt_trim_text opt_trim_not_text then_do_Inr then_do_Inl)
  show ?thesis
    using assms by (simp add: update_values_def t text_ok_def)
qed

lemma put_admin_update_eq:
  "put_admin_update v cast st i b =
     (if \<not> text_ok b
      then (case v of Supabase \<Rightarrow> Resp 500 (Error ''Update failed'') | MySQL \<Rightarrow> Uncaught, st)
      else if failing st then (Resp 500 (Error ''Update failed''), st)
      else (Resp 200 (Message ''Record updated successfully''),
            st\<lparr>table := map (\<lambda>r. if has_id cast i r then overwrite cast b r else r) (table st)\<rparr>))"
  by (simp add: put_admin_update_def update_values_ok update_values_bad)

lemma field_json_of: "field (json_of f) k = as_jsv (map_of f k)"
  by (simp add: field_def json_of_def map_of_map as_jsv_def split: option.splits)

lemma is_text_as_jsv: "is_text (as_jsv x)"
  by (cases x) (simp_all add: is_text_def as_jsv_def)

lemma is_text_json_of: "is_text (field (json_of f) k)"
  by (simp add: field_json_of is_text_as_jsv)

lemma add_values_MySQL:
  "add_values MySQL cast f n sp pp =
     Inr ((overwrite cast (json_of f) r)\<lparr>id_col := n, syllabus_link := sp, mentor_photo := pp\<rparr>)"
  by (simp add: add_values_def opt_trim_text is_text_json_of then_do_Inr overwrite_def
      field_json_of [symmetric] or_empty_text_rule)

lemma add_values_Inr:
  "\<exists>r. add_values v cast f n sp pp = Inr r \<and> id_col r = n \<and> syllabus_link r = sp
       \<and> mentor_photo r = pp
       \<and> section_col r = Some (trim (or_empty (map_of f ''section'')))"
proof (cases v)
  case Supabase
  then show ?thesis by (simp add: add_values_def)
next
  case MySQL
  have "section_rule (as_jsv (map_of f ''section'')) = trim (or_empty (map_of f ''section''))"
    by (cases "map_of f ''section''") (simp_all add: section_rule_def as_jsv_def or_empty_def trim_def)
  then show ?thesis
    using MySQL add_values_MySQL [of cast f n sp pp "undefined"]
    by (simp add: overwrite_def field_json_of)
qed

lemma overwrite_keeps:
  "id_col (overwrite cast b r) = id_col r"
  "syllabus_link (overwrite cast b r) = syllabus_link r"
  "mentor_photo (overwrite cast b r) = mentor_photo r"
  by (simp_all add: overwrite_def)

lemma table_store_of: "table (store_of t) = t"
  by (simp add: store_of_def)

lemma not_failing_store_of: "\<not> failing (store_of t)"
  by (simp add: store_of_def)

subsection \<open>Stored file names\<close>

lemma not_space_underscore: "\<not> is_space (CHR ''_'')"
  by (simp add: is_space_def)

lemma replace_ws_no_space: "c \<in> set (replace_ws s) \<Longrightarrow> \<not> is_space c"
proof (induction s rule: replace_ws.induct)
  case 1
  then show ?case by simp
next
  case (2 d ds)
  show ?case
  proof (cases "is_space d")
    case True
    with 2 show ?thesis by (auto simp: not_space_underscore)
  next
    case False
    with 2 show ?thesis by auto
  qed
qed

lemma filter_dropWhile:
  assumes "\<And>x. Q x \<Longrightarrow> \<not> P x"
  shows "filter P (dropWhile Q xs) = filter P xs"
  using assms by (induction xs) simp_all

lemma replace_ws_keeps:
  "filter (\<lambda>c. c \<noteq> CHR ''_'') (replace_ws s)
     = filter (\<lambda>c. \<not> is_space c \<and> c \<noteq> CHR ''_'') s"
proof (induction s rule: replace_ws.induct)
  case 1
  show ?case by simp
next
  case (2 c cs)
  show ?case
  proof (cases "is_space c")
    case True
    have "filter (\<lambda>c. \<not> is_space c \<and> c \<noteq> CHR ''_'') (dropWhile is_space cs)
            = filter (\<lambda>c. \<not> is_space c \<and> c \<noteq> CHR ''_'') cs"
      by (rule filter_dropWhile) simp
    with True 2 show ?thesis by simp
  next
    case False
    with 2 show ?thesis by simp
  qed
qed

lemma replace_ws_id: "\<forall>c \<in> set s. \<not> is_space c \<Longrightarrow> replace_ws s = s"
  by (induction s rule: replace_ws.induct) simp_all


lemma digit_val_digit_char: "d < 10 \<Longrightarrow> digit_val 10 (digit_char d) = Some (int d)"
proof -
  assume "d < 10"
  then have "d \<in> set [0, 1, 2, 3, 4, 5, 6, 7, 8, 9]"
    by (simp add: numeral_eq_Suc less_Suc_eq)
  then show ?thesis
    by (auto simp: digit_val_def digit_char_def)
qed

lemma digits_val_append:
  "digits_val b acc (xs @ ys) =
     (case digits_val b acc xs of None \<Rightarrow> None | Some a \<Rightarrow> digits_val b a ys)"
  by (induction xs arbitrary: acc) (simp_all split: option.splits)

lemma digits_val_decimal: "digits_val 10 0 (decimal n) = Some (int n)"
proof (induction n rule: decimal.induct)
  case (1 n)
  show ?case
  proof (cases "n < 10")
    case True
    then show ?thesis
      by (subst decimal.simps) (simp add: digit_val_digit_char)
  next
    case False
    then have ih: "digits_val 10 0 (decimal (n div 10)) = Some (int (n div 10))"
      using 1 by simp
    have m: "n mod 10 < 10" by simp
    have "int (n div 10) * 10 + int (n mod 10) = int n"
      by (simp add: zdiv_int zmod_int)
    then show ?thesis
      using False
      by (subst decimal.simps) (simp add: digits_val_append ih digit_val_digit_char [OF m])
  qed
qed

lemma decimal_not_empty: "decimal n \<noteq> []"
  by (subst decimal.simps) simp

lemma number_digits_decimal: "number_digits 10 (decimal n) = Some n"
  by (simp add: number_digits_def digits_of_def decimal_not_empty digits_val_decimal)

subsection \<open>Adding a record\<close>

lemma post_admin_add_ok:
  assumes "\<not> failing st"
  shows "\<exists>r. post_admin_add v cast st b sy ph =
           (Resp 200 (Message ''Record added successfully''),
            st\<lparr>disk := disk st @ written ''syllabus'' sy @ written ''mentor_photo'' ph,
               table := table st @ [r], next_id := next_id st + 1\<rparr>)
         \<and> id_col r = next_id st
         \<and> syllabus_link r = map_option (\<lambda>f. ''/uploads/syllabus/'' @ filename f) sy
         \<and> mentor_photo r = map_option (\<lambda>f. ''/uploads/mentors/'' @ filename f) ph
         \<and> section_col r = Some (trim (or_empty (map_of b ''section'')))"
proof -
  obtain r where r: "add_values v cast b (next_id st)
        (map_option (\<lambda>f. ''/uploads/syllabus/'' @ filename f) sy)
        (map_option (\<lambda>f. ''/uploads/mentors/'' @ filename f) ph) = Inr r"
      and p: "id_col r = next_id st
      \<and> syllabus_link r = map_option (\<lambda>f. ''/uploads/syllabus/'' @ filename f) sy
      \<and> mentor_photo r = map_option (\<lambda>f. ''/uploads/mentors/'' @ filename f) ph
      \<and> section_col r = Some (trim (or_empty (map_of b ''section'')))"
    using add_values_Inr [of v cast b "next_id st"
        "map_option (\<lambda>f. ''/uploads/syllabus/'' @ filename f) sy"
        "map_option (\<lambda>f. ''/uploads/mentors/'' @ filename f) ph"]
    by blast
  have "post_admin_add v cast st b sy ph =
           (Resp 200 (Message ''Record added successfully''),
            st\<lparr>disk := disk st @ written ''syllabus'' sy @ written ''mentor_photo'' ph,
               table := table st @ [r], next_id := next_id st + 1\<rparr>)"
    unfolding post_admin_add_def Let_def r using assms by simp
  with p show ?thesis by blast
qed

lemma post_admin_add_failing:
  assumes "failing st"
  shows "post_admin_add v cast st b sy ph =
           (Resp 500 (Error ''Insert failed''),
            st\<lparr>disk := disk st @ written ''syllabus'' sy @ written ''mentor_photo'' ph\<rparr>)"
proof -
  obtain r where r: "add_values v cast b (next_id st)
        (map_option (\<lambda>f. ''/uploads/syllabus/'' @ filename f) sy)
        (map_option (\<lambda>f. ''/uploads/mentors/'' @ filename f) ph) = Inr r"
    using add_values_Inr [of v cast b "next_id st"
        "map_option (\<lambda>f. ''/uploads/syllabus/'' @ filename f) sy"
        "map_option (\<lambda>f. ''/uploads/mentors/'' @ filename f) ph"]
    by blast
  show ?thesis
    unfolding post_admin_add_def Let_def r using assms by simp
qed

text \<open>
  C7. While the store answers, adding a record with a syllabus file and no mentor photo
  appends one row whose syllabus link is \<^verbatim>\<open>/uploads/syllabus/\<close> followed by the stored
  file name and whose mentor photo link is NULL, and writes the file under
  \<^verbatim>\<open>uploads/syllabus\<close>. The stored name is the clock reading in decimal, an
  underscore, and the original name in which every run of white space has become one
  underscore: no white space is left, and every other character is kept in order. The
  destination is a function of the field name alone.
\<close>


theorem add_syllabus_only:
  assumes "\<not> failing st"
  shows "\<exists>r. post_admin_add v cast st b (Some f) None =
           (Resp 200 (Message ''Record added successfully''),
            st\<lparr>disk := disk st @ [''uploads/syllabus/'' @ filename f],
               table := table st @ [r], next_id := next_id st + 1\<rparr>)
         \<and> syllabus_link r = Some (''/uploads/syllabus/'' @ filename f)
         \<and> mentor_photo r = None
         \<and> filename f = decimal (clock f) @ ''_'' @ replace_ws (originalname f)
         \<and> number_digits 10 (decimal (clock f)) = Some (clock f)
         \<and> (\<forall>c \<in> set (replace_ws (originalname f)). \<not> is_space c)
         \<and> filter (\<lambda>c. c \<noteq> CHR ''_'') (replace_ws (originalname f))
             = filter (\<lambda>c. \<not> is_space c \<and> c \<noteq> CHR ''_'') (originalname f)
         \<and> destination ''syllabus'' = Some ''uploads/syllabus''
         \<and> destination ''mentor_photo'' = Some ''uploads/mentors''"
proof -
  obtain r where r: "post_admin_add v cast st b (Some f) None =
           (Resp 200 (Message ''Record added successfully''),
            st\<lparr>disk := disk st @ written ''syllabus'' (Some f) @ written ''mentor_photo'' None,
               table := table st @ [r], next_id := next_id st + 1\<rparr>)"
      and s: "syllabus_link r = map_option (\<lambda>f. ''/uploads/syllabus/'' @ filename f) (Some f)"
      and m: "mentor_photo r = map_option (\<lambda>f. ''/uploads/mentors/'' @ filename f) None"
    using post_admin_add_ok [OF assms, of v cast b "Some f" None] by blast
  have w: "written ''syllabus'' (Some f) @ written ''mentor_photo'' None
             = [''uploads/syllabus/'' @ filename f]"
    by (simp add: written_def destination_def)
  have 1: "post_admin_add v cast st b (Some f) None =
           (Resp 200 (Message ''Record added successfully''),
            st\<lparr>disk := disk st @ [''uploads/syllabus/'' @ filename f],
               table := table st @ [r], next_id := next_id st + 1\<rparr>)"
    using r unfolding w .
  have 2: "syllabus_link r = Some (''/uploads/syllabus/'' @ filename f)"
    using s by simp
  have 3: "mentor_photo r = None"
    using m by simp
  have 4: "filename f = decimal (clock f) @ ''_'' @ replace_ws (originalname f)"
    by (simp add: filename_def)
  have 5: "\<forall>c \<in> set (replace_ws (originalname f)). \<not> is_space c"
    using replace_ws_no_space by blast
  have 6: "destination ''syllabus'' = Some ''uploads/syllabus''"
    by (simp add: destination_def)
  have 7: "destination ''mentor_photo'' = Some ''uploads/mentors''"
    by (simp add: destination_def)
  from 1 2 3 4 5 6 7 number_digits_decimal [of "clock f"] replace_ws_keeps [of "originalname f"]
  show ?thesis by blast
qed

theorem add_syllabus_only_witness:
  "\<not> failing (store_of [])
   \<and> fst (post_admin_add Supabase sample_cast (store_of []) sample_form (Some sample_upload) None)
       = Resp 200 (Message ''Record added successfully'')
   \<and> map syllabus_link
        (table (snd (post_admin_add Supabase sample_cast (store_of []) sample_form (Some sample_upload) None)))
       = [Some ''/uploads/syllabus/1700000000000_unit_plan_1.pdf'']
   \<and> map mentor_photo
        (table (snd (post_admin_add Supabase sample_cast (store_of []) sample_form (Some sample_upload) None)))
       = [None]
   \<and> disk (snd (post_admin_add Supabase sample_cast (store_of []) sample_form (Some sample_upload) None))
       = [''uploads/syllabus/1700000000000_unit_plan_1.pdf'']"
proof -
  have h: "\<not> failing (store_of [])"
    by (rule not_failing_store_of)
  have d: "decimal 1700000000000 = ''1700000000000''"
    by (simp add: decimal.simps digit_char_def)
  have n: "filename sample_upload = ''1700000000000_unit_plan_1.pdf''"
    by (simp add: filename_def sample_upload_def d is_space_def)
  obtain r where
    "post_admin_add Supabase sample_cast (store_of []) sample_form (Some sample_upload) None =
       (Resp 200 (Message ''Record added successfully''),
        (store_of [])\<lparr>disk := disk (store_of []) @ [''uploads/syllabus/'' @ filename sample_upload],
           table := table (store_of []) @ [r], next_id := next_id (store_of []) + 1\<rparr>)"
    and "syllabus_link r = Some (''/uploads/syllabus/'' @ filename sample_upload)"
    and "mentor_photo r = None"
    using add_syllabus_only [OF h, of Supabase sample_cast sample_form sample_upload] by blast
  then show ?thesis
    using h by (simp add: n store_of_def)
qed

subsection \<open>Updating and deleting\<close>

text \<open>
  C6, as the claim states it, fails: the Supabase file trims and defaults the fields of
  an add in another way than those of an update. A record added there from a form
  without an academic year and with an empty timetable link holds the empty string and
  NULL; an update of that record from the same fields leaves NULL and the empty string.
\<close>


theorem update_rules_counterexample:
  "map academic_year (table (snd (post_admin_add Supabase sample_cast (store_of []) sample_form None None)))
     = [Some []]
   \<and> map timetable_link (table (snd (post_admin_add Supabase sample_cast (store_of []) sample_form None None)))
     = [None]
   \<and> map academic_year (table (snd (put_admin_update Supabase sample_cast
         (snd (post_admin_add Supabase sample_cast (store_of []) sample_form None None))
         ''1'' (json_of sample_form))))
     = [None]
   \<and> map timetable_link (table (snd (put_admin_update Supabase sample_cast
         (snd (post_admin_add Supabase sample_cast (store_of []) sample_form None None))
         ''1'' (json_of sample_form))))
     = [Some []]"
  by code_simp

text \<open>
  C6, amended. An update whose seven text fields are strings, \<^verbatim>\<open>null\<close> or missing,
  and which the store accepts, leaves in every record with the given id what
  \<open>overwrite\<close> describes: each text field trimmed, NULL when missing; the section
  trimmed, empty when missing; the semester as the store reads the value sent. Any other
  update changes nothing. In every case the syllabus link and the mentor photo link of
  every record stay as they were. These are the values an add stores in the MySQL
  variant.
\<close>


theorem update_overwrites:
  "snd (put_admin_update v cast st i b) =
     (if text_ok b \<and> \<not> failing st
      then st\<lparr>table := map (\<lambda>r. if has_id cast i r then overwrite cast b r else r) (table st)\<rparr>
      else st)
   \<and> map syllabus_link (table (snd (put_admin_update v cast st i b))) = map syllabus_link (table st)
   \<and> map mentor_photo (table (snd (put_admin_update v cast st i b))) = map mentor_photo (table st)
   \<and> add_values MySQL cast f n sp pp =
       Inr ((overwrite cast (json_of f) r)\<lparr>id_col := n, syllabus_link := sp, mentor_photo := pp\<rparr>)"
  using add_values_MySQL [of cast f n sp pp r]
  by (simp add: put_admin_update_eq overwrite_keeps)

theorem update_overwrites_witness:
  "map class_name (table (snd (put_admin_update Supabase sample_cast (store_of sample_rows) ''3''
       (json_of sample_form))))
     = [Some ''Physics'', Some ''Physics'', Some ''Maths'', Some '' Chemistry '', Some ''Physics'']
   \<and> map syllabus_link (table (snd (put_admin_update Supabase sample_cast (store_of sample_rows) ''3''
       (json_of sample_form))))
     = map syllabus_link sample_rows"
proof -
  have t: "text_ok (json_of sample_form)"
    by (simp add: text_ok_def is_text_json_of)
  have e: "map class_name (map (\<lambda>r. if has_id sample_cast ''3'' r
                                       then overwrite sample_cast (json_of sample_form) r else r)
             sample_rows)
           = [Some ''Physics'', Some ''Physics'', Some ''Maths'', Some '' Chemistry '', Some ''Physics'']"
    by code_simp
  note u = update_overwrites [of Supabase sample_cast "store_of sample_rows" "''3''"
      "json_of sample_form" sample_form 1 None None "mk_row 1 ''Physics'' 2 None"]
  have s: "snd (put_admin_update Supabase sample_cast (store_of sample_rows) ''3'' (json_of sample_form))
           = (store_of sample_rows)\<lparr>table := map (\<lambda>r. if has_id sample_cast ''3'' r
                                       then overwrite sample_cast (json_of sample_form) r else r)
             (table (store_of sample_rows))\<rparr>"
    using u t by (simp add: not_failing_store_of)
  have a: "map syllabus_link (table (snd (put_admin_update Supabase sample_cast (store_of sample_rows)
             ''3'' (json_of sample_form)))) = map syllabus_link (table (store_of sample_rows))"
    using u by blast
  have c: "map class_name (table (snd (put_admin_update Supabase sample_cast (store_of sample_rows)
             ''3'' (json_of sample_form))))
           = [Some ''Physics'', Some ''Physics'', Some ''Maths'', Some '' Chemistry '', Some ''Physics'']"
    unfolding s using e by (simp add: table_store_of)
  show ?thesis
    using a c by (simp add: table_store_of)
qed

lemma filter_no_id: "\<forall>r \<in> set t. \<not> P r \<Longrightarrow> map (\<lambda>r. if P r then g r else r) t = t"
  by (induction t) simp_all

text \<open>
  C8. While the store answers, an update with well-typed text fields for an id that no
  row has is answered with the success message and changes nothing. A delete is answered
  with the success message, and so is the same delete repeated, which finds no row with
  that id and leaves the state as it was.
\<close>


theorem missing_id_succeeds:
  assumes "\<not> failing st" and "text_ok b" and "\<forall>r \<in> set (table st). \<not> has_id cast i r"
  shows "put_admin_update v cast st i b = (Resp 200 (Message ''Record updated successfully''), st)
    \<and> fst (delete_admin_delete v cast st j) = Resp 200 (Message ''Record deleted successfully'')
    \<and> delete_admin_delete v cast (snd (delete_admin_delete v cast st j)) j
        = (Resp 200 (Message ''Record deleted successfully''), snd (delete_admin_delete v cast st j))
    \<and> (\<forall>r \<in> set (table (snd (delete_admin_delete v cast st j))). \<not> has_id cast j r)"
proof -
  have u: "put_admin_update v cast st i b = (Resp 200 (Message ''Record updated successfully''), st)"
    using assms by (simp add: put_admin_update_eq filter_no_id)
  have d: "delete_admin_delete v cast st j =
             (Resp 200 (Message ''Record deleted successfully''),
              st\<lparr>table := filter (\<lambda>r. \<not> has_id cast j r) (table st)\<rparr>)"
    using assms(1) by (simp add: delete_admin_delete_def)
  have d2: "delete_admin_delete v cast (st\<lparr>table := filter (\<lambda>r. \<not> has_id cast j r) (table st)\<rparr>) j
              = (Resp 200 (Message ''Record deleted successfully''),
                 st\<lparr>table := filter (\<lambda>r. \<not> has_id cast j r) (table st)\<rparr>)"
    using assms(1) by (simp add: delete_admin_delete_def)
  show ?thesis
    using u d2 by (simp add: d)
qed

theorem missing_id_succeeds_witness:
  "\<not> failing (store_of sample_rows)
   \<and> text_ok (json_of sample_form)
   \<and> filter (has_id sample_cast ''99'') (table (store_of sample_rows)) = []
   \<and> put_admin_update MySQL sample_cast (store_of sample_rows) ''99'' (json_of sample_form)
       = (Resp 200 (Message ''Record updated successfully''), store_of sample_rows)
   \<and> fst (delete_admin_delete MySQL sample_cast (store_of sample_rows) ''3'')
       = Resp 200 (Message ''Record deleted successfully'')
   \<and> fst (delete_admin_delete MySQL sample_cast
         (snd (delete_admin_delete MySQL sample_cast (store_of sample_rows) ''3'')) ''3'')
       = Resp 200 (Message ''Record deleted successfully'')"
proof -
  have h: "\<not> failing (store_of sample_rows)"
    by (rule not_failing_store_of)
  have t: "text_ok (json_of sample_form)"
    by (simp add: text_ok_def is_text_json_of)
  have e: "filter (has_id sample_cast ''99'') (table (store_of sample_rows)) = []"
    by code_simp
  then have m: "\<forall>r \<in> set (table (store_of sample_rows)). \<not> has_id sample_cast ''99'' r"
    by (simp add: filter_empty_conv)
  show ?thesis
    using h t e missing_id_succeeds [OF h t m, of MySQL "''3''"] by simp
qed

subsection \<open>Faults and misses\<close>








subsection \<open>The section column\<close>

lemma section_overwrite: "section_col (overwrite cast b r) = Some (section_rule (field b ''section''))"
  by (simp add: overwrite_def)

lemma list_all2_map_same: "list_all2 Q t (map g t) = (\<forall>r \<in> set t. Q r (g r))"
  by (induction t) simp_all

lemma add_table:
  "table (snd (post_admin_add v cast st b sy ph)) = table st
   \<or> (\<exists>r. table (snd (post_admin_add v cast st b sy ph)) = table st @ [r]
          \<and> section_col r = Some (trim (or_empty (map_of b ''section''))))"
proof (cases "failing st")
  case True
  then show ?thesis by (simp add: post_admin_add_failing)
next
  case False
  then obtain r where "post_admin_add v cast st b sy ph =
           (Resp 200 (Message ''Record added successfully''),
            st\<lparr>disk := disk st @ written ''syllabus'' sy @ written ''mentor_photo'' ph,
               table := table st @ [r], next_id := next_id st + 1\<rparr>)"
      and "section_col r = Some (trim (or_empty (map_of b ''section'')))"
    using post_admin_add_ok [of st v cast b sy ph] by blast
  then show ?thesis by simp
qed

lemma add_ok_table:
  assumes "fst (post_admin_add v cast st b sy ph) = Resp 200 m"
  shows "\<exists>r. table (snd (post_admin_add v cast st b sy ph)) = table st @ [r]
          \<and> section_col r = Some (trim (or_empty (map_of b ''section'')))"
proof (cases "failing st")
  case True
  then show ?thesis using assms by (simp add: post_admin_add_failing)
next
  case False
  then obtain r where "post_admin_add v cast st b sy ph =
           (Resp 200 (Message ''Record added successfully''),
            st\<lparr>disk := disk st @ written ''syllabus'' sy @ written ''mentor_photo'' ph,
               table := table st @ [r], next_id := next_id st + 1\<rparr>)"
      and "section_col r = Some (trim (or_empty (map_of b ''section'')))"
    using post_admin_add_ok [of st v cast b sy ph] by blast
  then show ?thesis by simp
qed

lemma update_ok_table:
  assumes "fst (put_admin_update v cast st i c) = Resp 200 m"
  shows "list_all2 (\<lambda>r r'. if has_id cast i r
                             then section_col r' = Some (section_rule (field c ''section''))
                             else r' = r)
           (table st) (table (snd (put_admin_update v cast st i c)))"
proof -
  have "text_ok c \<and> \<not> failing st"
    using assms by (cases v) (auto simp: put_admin_update_eq split: if_splits)
  then show ?thesis
    by (simp add: put_admin_update_eq list_all2_map_same section_overwrite)
qed

lemma handle_keeps_sections:
  assumes "\<forall>r \<in> set (table st). section_col r \<noteq> None"
  shows "\<forall>r \<in> set (table (snd (handle v cast st req))). section_col r \<noteq> None"
proof (cases req)
  case (POST_add b s p)
  then show ?thesis using assms add_table [of v cast st b s p] by auto
next
  case (PUT_update i b)
  then show ?thesis using assms by (auto simp: put_admin_update_eq section_overwrite)
next
  case (DELETE_delete i)
  then show ?thesis using assms by (simp add: delete_admin_delete_def)
qed (use assms in simp_all)

text \<open>
  C10. In both variants no request stores NULL in the section column: if no row has a
  NULL section before a request, none has one after it. An add that succeeds appends a
  row whose section is the trimmed text sent, or the empty string when none was sent; an
  update that succeeds leaves in every row with the given id the trimmed text sent, or
  the empty string when the field is missing, and leaves every other row as it was.
\<close>


theorem section_never_null:
  "((\<forall>r \<in> set (table st). section_col r \<noteq> None)
      \<longrightarrow> (\<forall>r \<in> set (table (snd (handle v cast st req))). section_col r \<noteq> None))
   \<and> (fst (post_admin_add v cast st b sy ph) = Resp 200 m
      \<longrightarrow> (\<exists>r. table (snd (post_admin_add v cast st b sy ph)) = table st @ [r]
               \<and> section_col r = Some (trim (or_empty (map_of b ''section'')))))
   \<and> (fst (put_admin_update v cast st i c) = Resp 200 m'
      \<longrightarrow> list_all2 (\<lambda>r r'. if has_id cast i r
                               then section_col r' = Some (section_rule (field c ''section''))
                               else r' = r)
            (table st) (table (snd (put_admin_update v cast st i c))))"
  using handle_keeps_sections [of st v cast req] add_ok_table [of v cast st b sy ph m]
    update_ok_table [of v cast st i c m']
  by blast

theorem section_never_null_witness:
  "list_all (\<lambda>r. section_col r \<noteq> None) (table (store_of [mk_row 1 ''Physics'' 2 (Some ''B'')]))
   \<and> list_all (\<lambda>r. section_col r \<noteq> None)
         (table (snd (handle MySQL sample_cast (store_of [mk_row 1 ''Physics'' 2 (Some ''B'')])
                        (PUT_update ''1'' [(''section'', JNull)]))))"
proof -
  have p: "\<forall>r \<in> set (table (store_of [mk_row 1 ''Physics'' 2 (Some ''B'')])). section_col r \<noteq> None"
    by (simp add: store_of_def mk_row_def)
  show ?thesis
    unfolding list_all_iff
    using p section_never_null [of "store_of [mk_row 1 ''Physics'' 2 (Some ''B'')]" MySQL sample_cast
        "PUT_update ''1'' [(''section'', JNull)]"]
    by blast
qed

end
